theory Spec2Isabelle
  imports Main "HOL-Library.Word"
begin

section \<open>Python values, as the two parsers produce them\<close>

text \<open>
  \<^verbatim>\<open>yaml.safe_load\<close> and \<^verbatim>\<open>json.loads\<close> return plain Python objects. A float is kept
  as its 64 bits (IEEE 754 binary64), so that both zeros are falsy and a NaN is truthy; a
  YAML timestamp (\<^verbatim>\<open>datetime.date\<close> or \<^verbatim>\<open>datetime.datetime\<close>) is kept as its text.
  A dict is an association list: a lookup takes the first pair whose key matches. Keys are
  values themselves, because YAML allows keys that are not strings.
\<close>

datatype pyval =
    PNone
  | PBool bool
  | PInt int
  | PFloat "64 word"
  | PStr string
  | PBytes "8 word list"
  | PTimestamp string
  | PList "pyval list"
  | PDict "(pyval \<times> pyval) list"

text \<open>Python's truth value test (\<^verbatim>\<open>bool(v)\<close>) on these types.\<close>

fun truthy :: "pyval \<Rightarrow> bool" where
  "truthy PNone = False"
| "truthy (PBool b) = b"
| "truthy (PInt i) = (i \<noteq> 0)"
| "truthy (PFloat w) = (take_bit 63 w \<noteq> 0)"
| "truthy (PStr s) = (s \<noteq> [])"
| "truthy (PBytes bs) = (bs \<noteq> [])"
| "truthy (PTimestamp t) = True"
| "truthy (PList xs) = (xs \<noteq> [])"
| "truthy (PDict kvs) = (kvs \<noteq> [])"

text \<open>\<^verbatim>\<open>a or b\<close>: the first operand when it is truthy, the second otherwise.\<close>

definition py_or :: "pyval \<Rightarrow> pyval \<Rightarrow> pyval" where
  "py_or a b = (if truthy a then a else b)"

text \<open>
  \<^verbatim>\<open>d.get(k, default)\<close> for a string key \<^verbatim>\<open>k\<close>: only a string key of the dict can be equal
  to it. \<^verbatim>\<open>d.get(k)\<close> is \<^verbatim>\<open>d.get(k, None)\<close>.
\<close>

definition dict_get :: "(pyval \<times> pyval) list \<Rightarrow> string \<Rightarrow> pyval \<Rightarrow> pyval" where
  "dict_get d k dflt = (case map_of d (PStr k) of None \<Rightarrow> dflt | Some v \<Rightarrow> v)"

definition has_key :: "(pyval \<times> pyval) list \<Rightarrow> string \<Rightarrow> bool" where
  "has_key d k = (map_of d (PStr k) \<noteq> None)"


section \<open>Paths (pathlib, POSIX flavour)\<close>

text \<open>
  A path is its root (\<^verbatim>\<open>''\<close>, \<^verbatim>\<open>'/'\<close> or \<^verbatim>\<open>'//'\<close>) and its components.
  \<^verbatim>\<open>splitroot\<close>, \<^verbatim>\<open>str.split('/')\<close>, \<^verbatim>\<open>posixpath.join\<close>, \<^verbatim>\<open>str(p)\<close>, \<^verbatim>\<open>p.name\<close>,
  \<^verbatim>\<open>p.suffix\<close> and \<^verbatim>\<open>p.parent\<close> follow the standard library.
\<close>

record PurePath =
  root :: string
  parts :: "string list"

definition splitroot :: "string \<Rightarrow> string \<times> string" where
  "splitroot s =
     (if take 1 s = ''/'' then
        (if take 1 (drop 1 s) = ''/'' then
           (if take 1 (drop 2 s) = ''/'' then (''/'', drop 1 s) else (''//'', drop 2 s))
         else (''/'', drop 1 s))
      else ('''', s))"

fun split_sep :: "string \<Rightarrow> string list" where
  "split_sep [] = [[]]"
| "split_sep (c # cs) =
     (if c = CHR ''/'' then [] # split_sep cs
      else (case split_sep cs of [] \<Rightarrow> [[c]] | w # ws \<Rightarrow> (c # w) # ws))"

definition Path :: "string \<Rightarrow> PurePath" where
  "Path s =
     (if s = [] then \<lparr>root = [], parts = []\<rparr>
      else (case splitroot s of (r, rel) \<Rightarrow>
        \<lparr>root = r, parts = filter (\<lambda>x. x \<noteq> [] \<and> x \<noteq> ''.'') (split_sep rel)\<rparr>))"

fun join_sep :: "string list \<Rightarrow> string" where
  "join_sep [] = []"
| "join_sep [x] = x"
| "join_sep (x # y # ys) = x @ ''/'' @ join_sep (y # ys)"

definition path_str :: "PurePath \<Rightarrow> string" where
  "path_str p = (let s = root p @ join_sep (parts p) in if s = [] then ''.'' else s)"

definition posixpath_join :: "string \<Rightarrow> string \<Rightarrow> string" where
  "posixpath_join a b =
     (if take 1 b = ''/'' then b
      else if a = [] then b
      else if last a = CHR ''/'' then a @ b
      else a @ ''/'' @ b)"

text \<open>\<^verbatim>\<open>p / key\<close>\<close>

definition joinpath :: "PurePath \<Rightarrow> string \<Rightarrow> PurePath" where
  "joinpath p key = Path (posixpath_join (path_str p) key)"

text \<open>
  A plain name is one path component that pathlib keeps as it is. A relative path in normal
  form is a sequence of plain names separated by single slashes, such as \<^verbatim>\<open>assets\<close> or
  \<^verbatim>\<open>static/assets\<close>.
\<close>

definition plain_name :: "string \<Rightarrow> bool" where
  "plain_name s = (s \<noteq> [] \<and> s \<noteq> ''.'' \<and> CHR ''/'' \<notin> set s)"



section \<open>Configuration (config.py)\<close>

record AppConfig =
  brand_name :: string
  primary_color :: string
  accent_color :: string
  assets_dir :: string
  openai_api_key :: "string option"
  stability_api_key :: "string option"
  replicate_api_token :: "string option"
  pexels_api_key :: "string option"
  pixabay_api_key :: "string option"
  unsplash_access_key :: "string option"
  openclipart_base_url :: string
  giphy_api_key :: "string option"
  news_api_key :: "string option"
  reddit_client_id :: "string option"
  reddit_client_secret :: "string option"

text \<open>The configuration when no environment variable is set.\<close>

definition default_config :: AppConfig where
  "default_config =
     \<lparr>brand_name = ''Glennallen Panthers'', primary_color = ''#000000'',
      accent_color = ''#C8102E'', assets_dir = ''assets'',
      openai_api_key = None, stability_api_key = None, replicate_api_token = None,
      pexels_api_key = None, pixabay_api_key = None, unsplash_access_key = None,
      openclipart_base_url = ''https://openclipart.org'',
      giphy_api_key = None, news_api_key = None,
      reddit_client_id = None, reddit_client_secret = None\<rparr>"


section \<open>Image providers (images/providers.py)\<close>

record ImageRequest =
  prompt :: string
  style :: "string option"
  hint :: "string option"

record ImageResult =
  url :: "string option"
  path :: "string option"
  attribution :: "string option"

text \<open>\<^verbatim>\<open>ImageResult()\<close>: every field at its default.\<close>

definition empty_result :: ImageResult where
  "empty_result = \<lparr>url = None, path = None, attribution = None\<rparr>"

text \<open>The class \<^verbatim>\<open>ImageProvider\<close> and its subclass \<^verbatim>\<open>LocalProvider(search_paths)\<close>.\<close>

datatype provider = ImageProvider | LocalProvider "string list"

fun provider_name :: "provider \<Rightarrow> string" where
  "provider_name ImageProvider = ''base''"
| "provider_name (LocalProvider search_paths) = ''local''"

fun available :: "provider \<Rightarrow> bool" where
  "available ImageProvider = False"
| "available (LocalProvider search_paths) = True"

text \<open>
  The loop of \<^verbatim>\<open>LocalProvider.fetch\<close>: its body returns at once, so the loop ends in its
  first iteration when there is one, and falls through to \<^verbatim>\<open>ImageResult()\<close> otherwise.
\<close>

fun fetch_loop :: "string list \<Rightarrow> ImageResult" where
  "fetch_loop [] = empty_result"
| "fetch_loop (p # ps) = \<lparr>url = None, path = Some p, attribution = Some ''Local asset''\<rparr>"

fun fetch :: "provider \<Rightarrow> ImageRequest \<Rightarrow> ImageResult" where
  "fetch ImageProvider req = empty_result"
| "fetch (LocalProvider search_paths) req = fetch_loop search_paths"


section \<open>Image selection (images/selector.py)\<close>

text \<open>
  \<^verbatim>\<open>str(Path(cfg.assets_dir) / "images" / "panther" / file)\<close>, the expression of both
  entries of the list \<^verbatim>\<open>assets\<close>.
\<close>

definition panther_asset :: "AppConfig \<Rightarrow> string \<Rightarrow> string" where
  "panther_asset cfg file =
     path_str (joinpath (joinpath (joinpath (Path (assets_dir cfg)) ''images'') ''panther'') file)"

definition assets :: "AppConfig \<Rightarrow> string list" where
  "assets cfg = [panther_asset cfg ''header.png'', panther_asset cfg ''badge.png'']"

definition choose_image :: "string \<Rightarrow> AppConfig \<Rightarrow> ImageResult" where
  "choose_image topic cfg =
     fetch (LocalProvider (assets cfg)) \<lparr>prompt = topic, style = None, hint = None\<rparr>"


section \<open>The file system, as the program sees it\<close>

text \<open>
  A file system maps a path, by its text \<^verbatim>\<open>str(p)\<close>, to what the operating system answers
  about it: nothing (no such file or directory), a directory, a file, or a refusal. A file
  holds what \<^verbatim>\<open>read_text(encoding="utf-8")\<close> yields on it: its text, or nothing when
  reading fails (no permission, or bytes that are not UTF-8). A refusal is the error that
  every call on the path raises instead of an answer: \<^verbatim>\<open>ENAMETOOLONG\<close> for a name longer
  than a name can be, \<^verbatim>\<open>EACCES\<close> for a path behind a directory that may not be searched.
  One state of the file system is read at a time: nothing else changes it during a call.
\<close>

datatype oserror = ENAMETOOLONG | EACCES

datatype fsnode = Dir | File "string option" | Refused oserror

type_synonym filesystem = "string \<Rightarrow> fsnode option"

datatype error =
    FileNotFoundError string
  | IsADirectoryError string
  | NotADirectoryError string
  | FileExistsError string
  | ReadError string
  | OSError oserror string
  | YAMLError
  | JSONDecodeError
  | AttributeError
  | TemplateError

text \<open>
  \<^verbatim>\<open>p.exists()\<close> and \<^verbatim>\<open>p.is_dir()\<close> (pathlib of Python 3.11) call \<^verbatim>\<open>stat\<close>. They return
  False when it finds no such file or directory, and let every other \<^verbatim>\<open>OSError\<close> through:
  on a refused path they raise.
\<close>

definition path_exists :: "filesystem \<Rightarrow> PurePath \<Rightarrow> error + bool" where
  "path_exists fs p =
     (case fs (path_str p) of
        None \<Rightarrow> Inr False
      | Some (Refused e) \<Rightarrow> Inl (OSError e (path_str p))
      | Some Dir \<Rightarrow> Inr True
      | Some (File t) \<Rightarrow> Inr True)"

definition is_dir :: "filesystem \<Rightarrow> PurePath \<Rightarrow> error + bool" where
  "is_dir fs p =
     (case fs (path_str p) of
        None \<Rightarrow> Inr False
      | Some (Refused e) \<Rightarrow> Inl (OSError e (path_str p))
      | Some Dir \<Rightarrow> Inr True
      | Some (File t) \<Rightarrow> Inr False)"

text \<open>
  Nothing is at the path: the operating system finds no such file or directory, or it
  refuses the name as too long for any file. Behind a directory that may not be searched
  the file system does not tell what is there, and \<open>missing\<close> does not hold.
\<close>

definition missing :: "filesystem \<Rightarrow> PurePath \<Rightarrow> bool" where
  "missing fs p =
     (case fs (path_str p) of
        None \<Rightarrow> True
      | Some (Refused ENAMETOOLONG) \<Rightarrow> True
      | Some (Refused EACCES) \<Rightarrow> False
      | Some Dir \<Rightarrow> False
      | Some (File t) \<Rightarrow> False)"

definition read_text :: "filesystem \<Rightarrow> PurePath \<Rightarrow> error + string" where
  "read_text fs p =
     (case fs (path_str p) of
        None \<Rightarrow> Inl (FileNotFoundError (path_str p))
      | Some (Refused e) \<Rightarrow> Inl (OSError e (path_str p))
      | Some Dir \<Rightarrow> Inl (IsADirectoryError (path_str p))
      | Some (File None) \<Rightarrow> Inl (ReadError (path_str p))
      | Some (File (Some content)) \<Rightarrow> Inr content)"

text \<open>\<^verbatim>\<open>p.name\<close>, \<^verbatim>\<open>p.suffix\<close>, \<^verbatim>\<open>p.parent\<close> and \<^verbatim>\<open>str.lower\<close> (on ASCII letters).\<close>

definition path_name :: "PurePath \<Rightarrow> string" where
  "path_name p = (if parts p = [] then [] else last (parts p))"

definition rfind :: "string \<Rightarrow> char \<Rightarrow> nat option" where
  "rfind s c =
     (case filter (\<lambda>i. s ! i = c) (rev [0..<length s]) of [] \<Rightarrow> None | i # js \<Rightarrow> Some i)"

definition path_suffix :: "PurePath \<Rightarrow> string" where
  "path_suffix p =
     (let name = path_name p in
      case rfind name (CHR ''.'') of
        None \<Rightarrow> []
      | Some i \<Rightarrow> if 0 < i \<and> i < length name - 1 then drop i name else [])"

definition parent :: "PurePath \<Rightarrow> PurePath" where
  "parent p = (if parts p = [] then p else p\<lparr>parts := butlast (parts p)\<rparr>)"

definition lower_char :: "char \<Rightarrow> char" where
  "lower_char c =
     (let n = (of_char c :: nat) in if 65 \<le> n \<and> n \<le> 90 then char_of (n + 32) else c)"

definition str_lower :: "string \<Rightarrow> string" where
  "str_lower s = map lower_char s"


section \<open>Libraries and files outside the package\<close>

text \<open>
  The two parsers are libraries, and the template \<^verbatim>\<open>newsletter.html\<close> is a file read when
  the program runs: they are parameters. A parser returns no value when it raises its
  parse error; the template engine returns no markup when the template is missing or
  wrong.
\<close>

record libs =
  yaml_safe_load :: "string \<Rightarrow> pyval option"
  json_loads :: "string \<Rightarrow> pyval option"
  template_render :: "(string \<times> pyval) list \<Rightarrow> AppConfig \<Rightarrow> string option"


section \<open>Loading the weekly content (content.py)\<close>

definition GradeKeys :: "(string \<times> string) list" where
  "GradeKeys = [(''6th'', ''grade6''), (''7th'', ''grade7''), (''8th'', ''grade8'')]"

text \<open>
  The dict \<^verbatim>\<open>out\<close> built from the parsed document \<^verbatim>\<open>data\<close>, in the order of its literal. The
  returned dict has string keys only.
\<close>

definition normalize_content :: "(pyval \<times> pyval) list \<Rightarrow> (string \<times> pyval) list" where
  "normalize_content data =
     [(''grade6'', py_or (py_or (dict_get data ''grade6'' PNone) (dict_get data ''6th'' PNone)) (PList [])),
      (''grade7'', py_or (py_or (dict_get data ''grade7'' PNone) (dict_get data ''7th'' PNone)) (PList [])),
      (''grade8'', py_or (py_or (dict_get data ''grade8'' PNone) (dict_get data ''8th'' PNone)) (PList [])),
      (''announcements'', dict_get data ''announcements'' (PList [])),
      (''events'', dict_get data ''events'' (PList [])),
      (''achievements'', dict_get data ''achievements'' (PList [])),
      (''week'', py_or (dict_get data ''week'' PNone) (PStr ''This Week'')),
      (''date'', dict_get data ''date'' PNone)]"

text \<open>
  Lines 9 to 16: the document \<^verbatim>\<open>data\<close>. \<^verbatim>\<open>p.exists()\<close> must return True (when it raises,
  so does the function); the text of the file is parsed by the
  parser its extension selects. \<^verbatim>\<open>yaml.safe_load(text) or {}\<close> replaces every falsy
  document by the empty dict; \<^verbatim>\<open>json.loads(text or "{}")\<close> replaces the empty text only.
\<close>

definition read_document :: "libs \<Rightarrow> filesystem \<Rightarrow> string \<Rightarrow> error + pyval" where
  "read_document L fs path_arg =
     (let p = Path path_arg in
      case path_exists fs p of
        Inl e \<Rightarrow> Inl e
      | Inr found \<Rightarrow>
          if \<not> found then Inl (FileNotFoundError (path_str p))
          else (case read_text fs p of
                  Inl e \<Rightarrow> Inl e
                | Inr content \<Rightarrow>
                    if str_lower (path_suffix p) \<in> set [''.yaml'', ''.yml'']
                    then (case yaml_safe_load L content of
                            None \<Rightarrow> Inl YAMLError
                          | Some v \<Rightarrow> Inr (py_or v (PDict [])))
                    else (case json_loads L (if content \<noteq> [] then content else ''{}'') of
                            None \<Rightarrow> Inl JSONDecodeError
                          | Some v \<Rightarrow> Inr v)))"

text \<open>
  The whole function. \<^verbatim>\<open>data.get\<close> exists on a dict only: on any other value the first
  \<^verbatim>\<open>data.get("grade6")\<close> raises AttributeError.
\<close>

definition load_content :: "libs \<Rightarrow> filesystem \<Rightarrow> string \<Rightarrow> error + (string \<times> pyval) list" where
  "load_content L fs path_arg =
     (case read_document L fs path_arg of
        Inl e \<Rightarrow> Inl e
      | Inr data \<Rightarrow>
          (case data of
             PDict kvs \<Rightarrow> Inr (normalize_content kvs)
           | _ \<Rightarrow> Inl AttributeError))"

text \<open>A sequence is a Python list.\<close>

fun is_sequence :: "pyval \<Rightarrow> bool" where
  "is_sequence (PList xs) = True"
| "is_sequence v = False"


section \<open>Rendering and the generation pipeline (render.py, cli.py)\<close>

definition render_newsletter :: "libs \<Rightarrow> (string \<times> pyval) list \<Rightarrow> AppConfig \<Rightarrow> error + string" where
  "render_newsletter L content cfg =
     (case template_render L content cfg of None \<Rightarrow> Inl TemplateError | Some html \<Rightarrow> Inr html)"

text \<open>
  \<^verbatim>\<open>os.mkdir\<close>: the path must not be refused, the directory must be new and its parent
  must be a directory.
\<close>

definition os_mkdir :: "filesystem \<Rightarrow> PurePath \<Rightarrow> error + filesystem" where
  "os_mkdir fs p =
     (let s = path_str p in
      case fs s of
        Some (Refused e) \<Rightarrow> Inl (OSError e s)
      | Some Dir \<Rightarrow> Inl (FileExistsError s)
      | Some (File t) \<Rightarrow> Inl (FileExistsError s)
      | None \<Rightarrow>
          (case fs (path_str (parent p)) of
             None \<Rightarrow> Inl (FileNotFoundError s)
           | Some (Refused e) \<Rightarrow> Inl (OSError e s)
           | Some (File t) \<Rightarrow> Inl (NotADirectoryError s)
           | Some Dir \<Rightarrow> Inr (fs(s \<mapsto> Dir))))"

text \<open>
  The handler \<^verbatim>\<open>except OSError: if not exist_ok or not self.is_dir(): raise\<close> of
  \<^verbatim>\<open>Path.mkdir\<close>, with \<^verbatim>\<open>exist_ok=True\<close>: the error \<open>e\<close> is raised again unless the path
  is a directory; an error of \<^verbatim>\<open>is_dir\<close> itself takes its place.
\<close>

definition exist_ok :: "filesystem \<Rightarrow> PurePath \<Rightarrow> error \<Rightarrow> error + filesystem" where
  "exist_ok fs p e =
     (case is_dir fs p of
        Inl e' \<Rightarrow> Inl e'
      | Inr d \<Rightarrow> if d then Inr fs else Inl e)"

text \<open>\<^verbatim>\<open>p.mkdir(parents=False, exist_ok=True)\<close>\<close>

definition mkdir_leaf :: "filesystem \<Rightarrow> PurePath \<Rightarrow> error + filesystem" where
  "mkdir_leaf fs p =
     (case os_mkdir fs p of
        Inr fs' \<Rightarrow> Inr fs'
      | Inl (FileNotFoundError s) \<Rightarrow> Inl (FileNotFoundError s)
      | Inl e \<Rightarrow> exist_ok fs p e)"

text \<open>\<^verbatim>\<open>p.mkdir(parents=True, exist_ok=True)\<close>: pathlib's recursion on the parent.\<close>

function mkdir :: "filesystem \<Rightarrow> PurePath \<Rightarrow> error + filesystem" where
  "mkdir fs p =
     (case os_mkdir fs p of
        Inr fs' \<Rightarrow> Inr fs'
      | Inl (FileNotFoundError s) \<Rightarrow>
          if parent p = p then Inl (FileNotFoundError s)
          else (case mkdir fs (parent p) of
                  Inl e \<Rightarrow> Inl e
                | Inr fs1 \<Rightarrow> mkdir_leaf fs1 p)
      | Inl e \<Rightarrow> exist_ok fs p e)"
  by pat_completeness auto
termination
  by (relation "measure (\<lambda>(fs, p). length (parts p))")
     (auto simp: parent_def split: if_splits)

text \<open>\<^verbatim>\<open>p.write_text(html, encoding="utf-8")\<close>: creates the file or replaces its content.\<close>

definition write_text :: "filesystem \<Rightarrow> PurePath \<Rightarrow> string \<Rightarrow> error + filesystem" where
  "write_text fs p html =
     (let s = path_str p in
      case fs s of
        Some (Refused e) \<Rightarrow> Inl (OSError e s)
      | Some Dir \<Rightarrow> Inl (IsADirectoryError s)
      | Some (File t) \<Rightarrow> Inr (fs(s \<mapsto> File (Some html)))
      | None \<Rightarrow>
          (case fs (path_str (parent p)) of
             None \<Rightarrow> Inl (FileNotFoundError s)
           | Some (Refused e) \<Rightarrow> Inl (OSError e s)
           | Some (File t) \<Rightarrow> Inl (NotADirectoryError s)
           | Some Dir \<Rightarrow> Inr (fs(s \<mapsto> File (Some html)))))"

text \<open>
  The body of the command \<^verbatim>\<open>generate\<close>, with the configuration \<^verbatim>\<open>AppConfig()\<close> as a
  parameter. It returns the line it prints, or the error that ends the run, and the file
  system it leaves. Opening the written file in a viewer (\<^verbatim>\<open>open_after\<close>) changes neither:
  every failure of that step is swallowed.
\<close>

definition generate ::
  "libs \<Rightarrow> AppConfig \<Rightarrow> string \<Rightarrow> string \<Rightarrow> bool \<Rightarrow> filesystem \<Rightarrow> (error + string) \<times> filesystem" where
  "generate L cfg data out_dir open_after fs =
     (case load_content L fs data of
        Inl e \<Rightarrow> (Inl e, fs)
      | Inr content \<Rightarrow>
          (case render_newsletter L content cfg of
             Inl e \<Rightarrow> (Inl e, fs)
           | Inr html \<Rightarrow>
               (let out_path = Path out_dir in
                case mkdir fs out_path of
                  Inl e \<Rightarrow> (Inl e, fs)
                | Inr fs1 \<Rightarrow>
                    (let index_html = joinpath out_path ''index.html'' in
                     case write_text fs1 index_html html of
                       Inl e \<Rightarrow> (Inl e, fs1)
                     | Inr fs2 \<Rightarrow> (Inr (''Wrote '' @ path_str index_html), fs2)))))"


section \<open>Sample files\<close>

text \<open>
  Concrete inputs for evaluation: the two parsers on the texts of the sample files below
  (every other text is left unparsed), a template that prints the brand name, and a file
  system holding the sample files.
\<close>

definition sample_libs :: libs where
  "sample_libs =
     \<lparr>yaml_safe_load = (\<lambda>s.
        if s = [] then Some PNone
        else if s = ''6th: [quiz]'' then Some (PDict [(PStr ''6th'', PList [PStr ''quiz''])])
        else if s = ''grade6: [quiz]'' then Some (PDict [(PStr ''grade6'', PList [PStr ''quiz''])])
        else if s = ''{grade6: [], 6th: [quiz]}''
          then Some (PDict [(PStr ''grade6'', PList []), (PStr ''6th'', PList [PStr ''quiz''])])
        else if s = ''{grade6: null, 6th: [quiz], announcements: null, week: 0}''
          then Some (PDict [(PStr ''grade6'', PNone), (PStr ''6th'', PList [PStr ''quiz'']),
                            (PStr ''announcements'', PNone), (PStr ''week'', PInt 0)])
        else if s = ''grade6: 5'' then Some (PDict [(PStr ''grade6'', PInt 5)])
        else None),
      json_loads = (\<lambda>s. if s = ''{}'' then Some (PDict []) else None),
      template_render = (\<lambda>content cfg. Some (brand_name cfg))\<rparr>"

definition sample_fs :: filesystem where
  "sample_fs =
     [''.'' \<mapsto> Dir, ''data'' \<mapsto> Dir,
      ''data/empty.yml'' \<mapsto> File (Some []),
      ''data/empty.json'' \<mapsto> File (Some []),
      ''data/alias.yml'' \<mapsto> File (Some ''6th: [quiz]''),
      ''data/canonical.yml'' \<mapsto> File (Some ''grade6: [quiz]''),
      ''data/both.yml'' \<mapsto> File (Some ''{grade6: [], 6th: [quiz]}''),
      ''data/nulls.yml'' \<mapsto>
        File (Some ''{grade6: null, 6th: [quiz], announcements: null, week: 0}''),
      ''data/scalar.yml'' \<mapsto> File (Some ''grade6: 5'')]"

text \<open>
  The same files on a system that refuses every path of 4096 characters or more
  (\<^verbatim>\<open>PATH_MAX\<close>), and a path of 5000 characters.
\<close>

definition bounded_fs :: filesystem where
  "bounded_fs s = (if 4096 \<le> length s then Some (Refused ENAMETOOLONG) else sample_fs s)"

definition long_name :: string where
  "long_name = replicate 5000 (CHR ''a'')"


section \<open>Helper lemmas\<close>

lemma assets_default:
  "assets default_config = [''assets/images/panther/header.png'', ''assets/images/panther/badge.png'']"
  by code_simp

lemma load_content_document:
  "read_document L fs a = Inr (PDict d) \<Longrightarrow> load_content L fs a = Inr (normalize_content d)"
  by (simp add: load_content_def)

lemma load_content_accepts:
  "load_content L fs a = Inr out \<Longrightarrow>
     \<exists>d. read_document L fs a = Inr (PDict d) \<and> out = normalize_content d"
  by (auto simp: load_content_def split: sum.splits pyval.splits)

lemma grade_field:
  "(alias, canon) \<in> set GradeKeys \<Longrightarrow>
     map_of (normalize_content d) canon =
       Some (py_or (py_or (dict_get d canon PNone) (dict_get d alias PNone)) (PList []))"
  by (auto simp: GradeKeys_def normalize_content_def)


lemma read_document_missing:
  "path_exists fs (Path a) = Inr False \<Longrightarrow>
     read_document L fs a = Inl (FileNotFoundError (path_str (Path a)))"
  by (simp add: read_document_def)

lemma read_document_refused:
  "path_exists fs (Path a) = Inl e \<Longrightarrow> read_document L fs a = Inl e"
  by (simp add: read_document_def)

lemma path_exists_not_found:
  "path_exists fs p \<noteq> Inl (FileNotFoundError s)"
  by (simp add: path_exists_def split: option.splits fsnode.splits)

lemma read_document_existing:
  "path_exists fs (Path a) = Inr True \<Longrightarrow> read_document L fs a \<noteq> Inl (FileNotFoundError s)"
  by (auto simp: read_document_def path_exists_def read_text_def Let_def
           split: option.splits fsnode.splits)

lemma path_exists_False_missing:
  "path_exists fs p = Inr False \<Longrightarrow> missing fs p"
  by (simp add: path_exists_def missing_def split: option.splits fsnode.splits)


subsection \<open>Paths under a relative directory\<close>


lemma split_sep_plain: "CHR ''/'' \<notin> set s \<Longrightarrow> split_sep s = [s]"
  by (induction s) auto

lemma split_sep_append:
  "CHR ''/'' \<notin> set s \<Longrightarrow> split_sep (s @ CHR ''/'' # t) = s # split_sep t"
  by (induction s) auto

lemma split_sep_join:
  "\<forall>x \<in> set ps. CHR ''/'' \<notin> set x \<Longrightarrow> ps \<noteq> [] \<Longrightarrow> split_sep (join_sep ps) = ps"
proof (induction ps rule: join_sep.induct)
  case 1
  then show ?case by simp
next
  case (2 x)
  then show ?case by (simp add: split_sep_plain)
next
  case (3 x y ys)
  then show ?case by (simp add: split_sep_append)
qed


lemma plain_name_ends:
  "plain_name x \<Longrightarrow> x \<noteq> [] \<and> hd x \<noteq> CHR ''/'' \<and> last x \<noteq> CHR ''/''"
  by (cases x) (auto simp: plain_name_def dest: last_in_set)

lemma join_sep_last:
  "\<forall>x \<in> set ps. plain_name x \<Longrightarrow> ps \<noteq> [] \<Longrightarrow>
     join_sep ps \<noteq> [] \<and> hd (join_sep ps) \<noteq> CHR ''/'' \<and> last (join_sep ps) \<noteq> CHR ''/''"
proof (induction ps rule: join_sep.induct)
  case 1
  then show ?case by simp
next
  case (2 x)
  then show ?case
    using plain_name_ends [of x] by simp
next
  case (3 x y ys)
  then show ?case
    using plain_name_ends [of x] by (cases x) auto
qed

lemma Path_relative:
  assumes "\<forall>x \<in> set ps. plain_name x" and "ps \<noteq> []"
  shows "Path (join_sep ps) = \<lparr>root = [], parts = ps\<rparr>"
proof -
  from join_sep_last [OF assms] obtain c cs where j: "join_sep ps = c # cs" and c: "c \<noteq> CHR ''/''"
    by (cases "join_sep ps") auto
  have sr: "splitroot (join_sep ps) = ([], join_sep ps)"
    by (simp add: splitroot_def j c)
  have sp: "split_sep (join_sep ps) = ps"
    using assms by (intro split_sep_join) (auto simp: plain_name_def)
  have f: "filter (\<lambda>x. x \<noteq> [] \<and> x \<noteq> ''.'') ps = ps"
    using assms(1) by (intro filter_True) (auto simp: plain_name_def)
  have ne: "join_sep ps \<noteq> []"
    by (simp add: j)
  show ?thesis
    by (simp add: Path_def sr sp f ne)
qed






section \<open>Image selection and the local provider\<close>



text \<open>
  C2. \<open>LocalProvider.fetch\<close> on a list of candidates that is not empty returns the first
  candidate as the path, with the attribution \<^verbatim>\<open>Local asset\<close> and no url; on the empty
  list it returns the empty result. The file system is no argument of \<open>fetch\<close>: the
  result is the same whether the candidate exists on disk or not.
\<close>

theorem local_fetch_first_candidate:
  "(ps \<noteq> [] \<longrightarrow>
      fetch (LocalProvider ps) req =
        \<lparr>url = None, path = Some (hd ps), attribution = Some ''Local asset''\<rparr>) \<and>
   (ps = [] \<longrightarrow>
      fetch (LocalProvider ps) req = \<lparr>url = None, path = None, attribution = None\<rparr>)"
  by (cases ps) (simp_all add: empty_result_def)

theorem local_fetch_first_candidate_witness:
  "fetch (LocalProvider [''no/such/file.png'', ''assets/images/panther/badge.png''])
      \<lparr>prompt = ''science fair'', style = None, hint = None\<rparr> =
     \<lparr>url = None, path = Some ''no/such/file.png'', attribution = Some ''Local asset''\<rparr> \<and>
   fetch (LocalProvider []) \<lparr>prompt = ''science fair'', style = None, hint = None\<rparr> =
     \<lparr>url = None, path = None, attribution = None\<rparr>"
  using local_fetch_first_candidate
          [of "[''no/such/file.png'', ''assets/images/panther/badge.png'']"
              "\<lparr>prompt = ''science fair'', style = None, hint = None\<rparr>"]
        local_fetch_first_candidate
          [of "[]" "\<lparr>prompt = ''science fair'', style = None, hint = None\<rparr>"]
  by simp

text \<open>
  C9. The result of \<open>choose_image\<close> does not depend on the topic: two topics give the same
  result under one configuration, and also under two configurations with the same
  \<open>assets_dir\<close>.
\<close>

theorem choose_image_ignores_topic:
  "choose_image t1 cfg = choose_image t2 cfg \<and>
   (assets_dir cfg = assets_dir cfg' \<longrightarrow> choose_image t1 cfg = choose_image t2 cfg')"
  by (simp add: choose_image_def assets_def panther_asset_def)

theorem choose_image_ignores_topic_witness:
  "choose_image ''science fair'' default_config =
     choose_image ''basketball'' (default_config\<lparr>brand_name := ''Copper River''\<rparr>)"
proof -
  have h: "assets_dir default_config =
           assets_dir (default_config\<lparr>brand_name := ''Copper River''\<rparr>)"
    by simp
  from choose_image_ignores_topic
         [of "''science fair''" default_config "''basketball''"
             "default_config\<lparr>brand_name := ''Copper River''\<rparr>"] h
  show ?thesis by blast
qed


section \<open>Loading: errors and defaults\<close>

lemma long_name_length: "length long_name = 5000"
  by (simp add: long_name_def)

lemma long_name_plain: "plain_name long_name"
proof -
  have ne: "long_name \<noteq> []"
    using long_name_length by auto
  have nd: "long_name \<noteq> ''.''"
  proof
    assume e: "long_name = ''.''"
    have "length long_name = length ''.''"
      by (rule arg_cong [OF e])
    with long_name_length have "(5000::nat) = length ''.''"
      by (rule subst)
    then show False
      by simp
  qed
  have "CHR ''/'' \<notin> set long_name"
    by (simp add: long_name_def)
  with ne nd show ?thesis
    by (simp add: plain_name_def)
qed

lemma long_name_path: "path_str (Path long_name) = long_name"
proof -
  have "Path (join_sep [long_name]) = \<lparr>root = [], parts = [long_name]\<rparr>"
    using long_name_plain by (intro Path_relative) simp_all
  then have "path_str (Path long_name) = (if long_name = [] then ''.'' else long_name)"
    by (simp add: path_str_def)
  with long_name_plain show ?thesis
    by (simp add: plain_name_def)
qed

lemma long_name_refused: "bounded_fs long_name = Some (Refused ENAMETOOLONG)"
  by (simp add: bounded_fs_def long_name_length)

lemma long_name_exists:
  "path_exists bounded_fs (Path long_name) = Inl (OSError ENAMETOOLONG long_name)"
  by (simp add: path_exists_def long_name_path long_name_refused)

text \<open>
  C6 (as amended). \<open>load_content\<close> fails with FileNotFoundError exactly when \<^verbatim>\<open>p.exists()\<close>
  returns False, that is when the operating system finds no such file or directory; then
  nothing is at the path. When \<^verbatim>\<open>p.exists()\<close> itself raises, because the operating system
  refuses the path, \<open>load_content\<close> fails with that error. In both cases no content is
  returned (the result is the error), and the pipeline \<open>generate\<close> ends with the same
  error and leaves the file system as it was: nothing is written.
\<close>

theorem load_content_not_found:
  "((\<exists>s. load_content L fs a = Inl (FileNotFoundError s)) \<longleftrightarrow>
      path_exists fs (Path a) = Inr False) \<and>
   (path_exists fs (Path a) = Inr False \<longrightarrow>
      missing fs (Path a) \<and>
      load_content L fs a = Inl (FileNotFoundError (path_str (Path a))) \<and>
      generate L cfg a out_dir open_after fs =
        (Inl (FileNotFoundError (path_str (Path a))), fs)) \<and>
   (\<forall>e. path_exists fs (Path a) = Inl e \<longrightarrow>
      load_content L fs a = Inl e \<and>
      generate L cfg a out_dir open_after fs = (Inl e, fs))"
proof -
  have absent: "load_content L fs a = Inl (FileNotFoundError (path_str (Path a)))"
    if "path_exists fs (Path a) = Inr False"
    using read_document_missing [OF that] by (simp add: load_content_def)
  have refused: "load_content L fs a = Inl e"
    if "path_exists fs (Path a) = Inl e" for e
    using read_document_refused [OF that] by (simp add: load_content_def)
  have existing: "load_content L fs a \<noteq> Inl (FileNotFoundError s)"
    if "path_exists fs (Path a) = Inr True" for s
    using read_document_existing [OF that]
    by (auto simp: load_content_def split: sum.splits pyval.splits)
  have other: "load_content L fs a \<noteq> Inl (FileNotFoundError s)"
    if "path_exists fs (Path a) \<noteq> Inr False" for s
  proof (cases "path_exists fs (Path a)")
    case (Inl e)
    with refused [OF Inl] path_exists_not_found [of fs "Path a" s] show ?thesis
      by auto
  next
    case (Inr found)
    with that have "path_exists fs (Path a) = Inr True"
      by (cases found) simp_all
    then show ?thesis
      by (rule existing)
  qed
  have iff: "(\<exists>s. load_content L fs a = Inl (FileNotFoundError s)) \<longleftrightarrow>
               path_exists fs (Path a) = Inr False"
    using absent other by blast
  have gen: "generate L cfg a out_dir open_after fs = (Inl e, fs)"
    if "load_content L fs a = Inl e" for e
    using that by (simp add: generate_def)
  show ?thesis
    using iff absent refused gen path_exists_False_missing by blast
qed

theorem load_content_not_found_witness:
  "path_exists sample_fs (Path ''data/missing.yml'') = Inr False \<and>
   load_content sample_libs sample_fs ''data/missing.yml'' =
     Inl (FileNotFoundError ''data/missing.yml'') \<and>
   generate sample_libs default_config ''data/missing.yml'' ''out'' False sample_fs =
     (Inl (FileNotFoundError ''data/missing.yml''), sample_fs) \<and>
   path_exists bounded_fs (Path long_name) = Inl (OSError ENAMETOOLONG long_name) \<and>
   generate sample_libs default_config long_name ''out'' False bounded_fs =
     (Inl (OSError ENAMETOOLONG long_name), bounded_fs)"
proof -
  have h: "path_exists sample_fs (Path ''data/missing.yml'') = Inr False"
    by code_simp
  have s: "path_str (Path ''data/missing.yml'') = ''data/missing.yml''"
    by code_simp
  note r = long_name_exists
  from load_content_not_found
         [of sample_libs sample_fs "''data/missing.yml''" default_config "''out''" False] h
  have "load_content sample_libs sample_fs ''data/missing.yml'' =
          Inl (FileNotFoundError (path_str (Path ''data/missing.yml''))) \<and>
        generate sample_libs default_config ''data/missing.yml'' ''out'' False sample_fs =
          (Inl (FileNotFoundError (path_str (Path ''data/missing.yml''))), sample_fs)"
    by blast
  moreover from load_content_not_found
         [of sample_libs bounded_fs long_name default_config "''out''" False] r
  have "generate sample_libs default_config long_name ''out'' False bounded_fs =
          (Inl (OSError ENAMETOOLONG long_name), bounded_fs)"
    by blast
  ultimately show ?thesis
    using h r by (simp add: s)
qed

text \<open>
  The claim as stated, FileNotFoundError exactly when the path does not exist, fails on a
  path of 5000 characters: no file has such a name, \<^verbatim>\<open>p.exists()\<close> raises the
  \<^verbatim>\<open>OSError\<close> of \<^verbatim>\<open>ENAMETOOLONG\<close>, and \<open>load_content\<close> fails with that error before it
  reaches its own \<^verbatim>\<open>raise FileNotFoundError(p)\<close>.
\<close>

theorem not_found_iff_missing_counterexample:
  "missing bounded_fs (Path long_name) \<and>
   load_content sample_libs bounded_fs long_name = Inl (OSError ENAMETOOLONG long_name)"
proof -
  have "missing bounded_fs (Path long_name)"
    by (simp add: missing_def long_name_path long_name_refused)
  moreover have "load_content sample_libs bounded_fs long_name =
                   Inl (OSError ENAMETOOLONG long_name)"
    using read_document_refused [OF long_name_exists]
    by (simp add: load_content_def)
  ultimately show ?thesis
    by simp
qed

text \<open>
  C7. When the document read from the file has no key \<^verbatim>\<open>week\<close>, \<open>load_content\<close> returns
  a record whose \<^verbatim>\<open>week\<close> is the placeholder \<^verbatim>\<open>This Week\<close>.
\<close>

theorem week_defaults_to_placeholder:
  assumes "read_document L fs a = Inr (PDict d)" and "\<not> has_key d ''week''"
  shows "\<exists>out. load_content L fs a = Inr out \<and> map_of out ''week'' = Some (PStr ''This Week'')"
  using assms load_content_document [of L fs a d]
  by (simp add: normalize_content_def dict_get_def has_key_def py_or_def)

theorem week_defaults_to_placeholder_witness:
  "\<exists>out. load_content sample_libs sample_fs ''data/alias.yml'' = Inr out \<and>
         map_of out ''week'' = Some (PStr ''This Week'')"
proof -
  have r: "read_document sample_libs sample_fs ''data/alias.yml'' =
             Inr (PDict [(PStr ''6th'', PList [PStr ''quiz''])])"
    by code_simp
  have k: "\<not> has_key [(PStr ''6th'', PList [PStr ''quiz''])] ''week''"
    by (simp add: has_key_def)
  from week_defaults_to_placeholder [OF r k] show ?thesis .
qed




section \<open>Normalising the grade fields\<close>

text \<open>
  C3 (as amended). For each of the three grade fields, \<open>load_content\<close> takes the value
  under the canonical key when that key is present with a truthy value, else the value
  under the alias key when that key is present with a truthy value, else the empty list.
  The canonical key has priority only while its value is truthy: an empty list, a null or
  any other falsy value under it gives way to a truthy alias.
\<close>

theorem grade_field_first_truthy:
  assumes "read_document L fs a = Inr (PDict d)" and "(alias, canon) \<in> set GradeKeys"
  shows "\<exists>out. load_content L fs a = Inr out \<and>
     map_of out canon = Some
       (let fallback = (case map_of d (PStr alias) of
                          Some w \<Rightarrow> if truthy w then w else PList []
                        | None \<Rightarrow> PList [])
        in case map_of d (PStr canon) of
             Some v \<Rightarrow> if truthy v then v else fallback
           | None \<Rightarrow> fallback)"
  using load_content_document [OF assms(1)] grade_field [OF assms(2), of d]
  by (simp add: dict_get_def py_or_def split: option.splits)

theorem grade_field_first_truthy_witness:
  "\<exists>out. load_content sample_libs sample_fs ''data/both.yml'' = Inr out \<and>
         map_of out ''grade6'' = Some (PList [PStr ''quiz''])"
proof -
  have r: "read_document sample_libs sample_fs ''data/both.yml'' =
             Inr (PDict [(PStr ''grade6'', PList []), (PStr ''6th'', PList [PStr ''quiz''])])"
    by code_simp
  have k: "(''6th'', ''grade6'') \<in> set GradeKeys"
    by (simp add: GradeKeys_def)
  from grade_field_first_truthy [OF r k] show ?thesis by simp
qed

text \<open>
  The claim as stated, that the canonical key wins whenever it is present, fails on the
  document \<^verbatim>\<open>{grade6: [], 6th: [quiz]}\<close>: the canonical key is present with the empty
  list, and the field \<^verbatim>\<open>grade6\<close> returned is the alias's \<^verbatim>\<open>[quiz]\<close>.
\<close>

theorem canonical_priority_counterexample:
  "read_document sample_libs sample_fs ''data/both.yml'' =
     Inr (PDict [(PStr ''grade6'', PList []), (PStr ''6th'', PList [PStr ''quiz''])]) \<and>
   load_content sample_libs sample_fs ''data/both.yml'' =
     Inr [(''grade6'', PList [PStr ''quiz'']), (''grade7'', PList []), (''grade8'', PList []),
          (''announcements'', PList []), (''events'', PList []),
          (''achievements'', PList []), (''week'', PStr ''This Week''),
          (''date'', PNone)]"
  by code_simp

text \<open>
  C4. Two documents that differ only in giving the same value \<open>v\<close> under the canonical key
  of a grade (the one) or under its alias (the other), the rest \<open>d\<close> of both holding
  neither key, load to the same record.
\<close>

theorem alias_canonical_same_content:
  assumes "(alias, canon) \<in> set GradeKeys"
    and "\<not> has_key d alias" and "\<not> has_key d canon"
    and "map_of d1 = (map_of d)(PStr canon \<mapsto> v)"
    and "map_of d2 = (map_of d)(PStr alias \<mapsto> v)"
    and "read_document L fs a1 = Inr (PDict d1)"
    and "read_document L fs a2 = Inr (PDict d2)"
  shows "\<exists>out. load_content L fs a1 = Inr out \<and> load_content L fs a2 = Inr out"
proof -
  have e1: "map_of d1 (PStr k) = (if k = canon then Some v else map_of d (PStr k))" for k
    by (simp add: assms(4))
  have e2: "map_of d2 (PStr k) = (if k = alias then Some v else map_of d (PStr k))" for k
    by (simp add: assms(5))
  have na: "map_of d (PStr alias) = None" and nc: "map_of d (PStr canon) = None"
    using assms(2,3) by (simp_all add: has_key_def)
  have keys: "(alias = ''6th'' \<and> canon = ''grade6'') \<or> (alias = ''7th'' \<and> canon = ''grade7'')
              \<or> (alias = ''8th'' \<and> canon = ''grade8'')"
    using assms(1) by (simp add: GradeKeys_def)
  have "normalize_content d1 = normalize_content d2"
    using keys na nc
    by (elim disjE conjE) (simp_all add: normalize_content_def dict_get_def py_or_def e1 e2)
  with load_content_document [OF assms(6)] load_content_document [OF assms(7)]
  show ?thesis by simp
qed

theorem alias_canonical_same_content_witness:
  "\<exists>out. load_content sample_libs sample_fs ''data/canonical.yml'' = Inr out \<and>
         load_content sample_libs sample_fs ''data/alias.yml'' = Inr out"
proof -
  have k: "(''6th'', ''grade6'') \<in> set GradeKeys"
    by (simp add: GradeKeys_def)
  have n1: "\<not> has_key [] ''6th''" and n2: "\<not> has_key [] ''grade6''"
    by (simp_all add: has_key_def)
  have m1: "map_of [(PStr ''grade6'', PList [PStr ''quiz''])] =
              (map_of [])(PStr ''grade6'' \<mapsto> PList [PStr ''quiz''])"
    by simp
  have m2: "map_of [(PStr ''6th'', PList [PStr ''quiz''])] =
              (map_of [])(PStr ''6th'' \<mapsto> PList [PStr ''quiz''])"
    by simp
  have r1: "read_document sample_libs sample_fs ''data/canonical.yml'' =
              Inr (PDict [(PStr ''grade6'', PList [PStr ''quiz''])])"
    by code_simp
  have r2: "read_document sample_libs sample_fs ''data/alias.yml'' =
              Inr (PDict [(PStr ''6th'', PList [PStr ''quiz''])])"
    by code_simp
  from alias_canonical_same_content [OF k n1 n2 m1 m2 r1 r2] show ?thesis .
qed


section \<open>The fields of the returned record\<close>

lemma is_sequence_iff: "is_sequence v \<longleftrightarrow> (\<exists>xs. v = PList xs)"
  by (cases v) simp_all

lemma other_field:
  "k \<in> set [''announcements'', ''events'', ''achievements''] \<Longrightarrow>
     map_of (normalize_content d) k = Some (dict_get d k (PList []))"
  by (auto simp: normalize_content_def)

lemma week_field:
  "map_of (normalize_content d) ''week'' =
     Some (py_or (dict_get d ''week'' PNone) (PStr ''This Week''))"
  by (simp add: normalize_content_def)

lemma normalize_content_keys:
  "map fst (normalize_content d) =
     [''grade6'', ''grade7'', ''grade8'', ''announcements'', ''events'', ''achievements'',
      ''week'', ''date'']"
  by (simp add: normalize_content_def)

lemma py_or_sequence:
  assumes "is_sequence a \<or> \<not> truthy a" and "is_sequence b"
  shows "is_sequence (py_or a b)"
  using assms by (auto simp: py_or_def)

lemma dict_get_sequence:
  assumes "case map_of d (PStr k) of None \<Rightarrow> True | Some v \<Rightarrow> is_sequence v \<or> \<not> truthy v"
  shows "is_sequence (dict_get d k PNone) \<or> \<not> truthy (dict_get d k PNone)"
  using assms by (cases "map_of d (PStr k)") (simp_all add: dict_get_def)

text \<open>
  C5 (as amended). The record \<open>load_content\<close> returns always has the six keys \<^verbatim>\<open>grade6\<close>,
  \<^verbatim>\<open>grade7\<close>, \<^verbatim>\<open>grade8\<close>, \<^verbatim>\<open>announcements\<close>, \<^verbatim>\<open>events\<close> and \<^verbatim>\<open>achievements\<close> (and
  \<^verbatim>\<open>week\<close> and \<^verbatim>\<open>date\<close>), whichever keys or aliases the document used. A grade field is a
  list whenever each of its two keys is absent from the document or holds a list or a
  falsy value; each of the other three is a list whenever its key is absent or holds a
  list. Values are not validated: what the document holds under a key passes through.
\<close>

theorem six_fields_present:
  assumes "load_content L fs a = Inr out"
  shows "map fst out = [''grade6'', ''grade7'', ''grade8'', ''announcements'', ''events'',
                        ''achievements'', ''week'', ''date''] \<and>
     (\<exists>d. read_document L fs a = Inr (PDict d) \<and>
        (\<forall>(alias, canon) \<in> set GradeKeys.
            (\<forall>k \<in> set [canon, alias].
               case map_of d (PStr k) of None \<Rightarrow> True | Some v \<Rightarrow> is_sequence v \<or> \<not> truthy v)
            \<longrightarrow> (\<exists>xs. map_of out canon = Some (PList xs))) \<and>
        (\<forall>k \<in> set [''announcements'', ''events'', ''achievements''].
            (case map_of d (PStr k) of None \<Rightarrow> True | Some v \<Rightarrow> is_sequence v)
            \<longrightarrow> (\<exists>xs. map_of out k = Some (PList xs))))"
proof -
  from load_content_accepts [OF assms] obtain d
    where d: "read_document L fs a = Inr (PDict d)" and out: "out = normalize_content d"
    by blast
  have keys: "map fst out = [''grade6'', ''grade7'', ''grade8'', ''announcements'', ''events'',
                             ''achievements'', ''week'', ''date'']"
    unfolding out by (rule normalize_content_keys)
  have grades: "\<exists>xs. map_of out ck = Some (PList xs)"
    if gk: "(ak, ck) \<in> set GradeKeys"
      and c: "case map_of d (PStr ck) of None \<Rightarrow> True | Some v \<Rightarrow> is_sequence v \<or> \<not> truthy v"
      and a: "case map_of d (PStr ak) of None \<Rightarrow> True | Some v \<Rightarrow> is_sequence v \<or> \<not> truthy v"
    for ak ck
  proof -
    have "is_sequence (py_or (dict_get d ck PNone) (dict_get d ak PNone)) \<or>
          \<not> truthy (py_or (dict_get d ck PNone) (dict_get d ak PNone))"
      using dict_get_sequence [OF c] dict_get_sequence [OF a] by (auto simp: py_or_def)
    then have "is_sequence (py_or (py_or (dict_get d ck PNone) (dict_get d ak PNone)) (PList []))"
      by (rule py_or_sequence) simp
    then show ?thesis
      unfolding out grade_field [OF gk] by (simp add: is_sequence_iff)
  qed
  have others: "\<exists>xs. map_of out k = Some (PList xs)"
    if k: "k \<in> set [''announcements'', ''events'', ''achievements'']"
      and v: "case map_of d (PStr k) of None \<Rightarrow> True | Some v \<Rightarrow> is_sequence v"
    for k
  proof -
    have "is_sequence (dict_get d k (PList []))"
      using v by (cases "map_of d (PStr k)") (simp_all add: dict_get_def)
    then show ?thesis
      unfolding out other_field [OF k] by (simp add: is_sequence_iff)
  qed
  have g: "\<forall>(alias, canon) \<in> set GradeKeys.
            (\<forall>k \<in> set [canon, alias].
               case map_of d (PStr k) of None \<Rightarrow> True | Some v \<Rightarrow> is_sequence v \<or> \<not> truthy v)
            \<longrightarrow> (\<exists>xs. map_of out canon = Some (PList xs))"
  proof (intro ballI, clarify)
    fix ak ck
    assume "(ak, ck) \<in> set GradeKeys"
       and "\<forall>k \<in> set [ck, ak].
               case map_of d (PStr k) of None \<Rightarrow> True | Some v \<Rightarrow> is_sequence v \<or> \<not> truthy v"
    then show "\<exists>xs. map_of out ck = Some (PList xs)"
      using grades [of ak ck] by simp
  qed
  have o: "\<forall>k \<in> set [''announcements'', ''events'', ''achievements''].
            (case map_of d (PStr k) of None \<Rightarrow> True | Some v \<Rightarrow> is_sequence v)
            \<longrightarrow> (\<exists>xs. map_of out k = Some (PList xs))"
    using others by blast
  from keys d g o show ?thesis by blast
qed

theorem six_fields_present_witness:
  "load_content sample_libs sample_fs ''data/alias.yml'' =
     Inr [(''grade6'', PList [PStr ''quiz'']), (''grade7'', PList []), (''grade8'', PList []),
          (''announcements'', PList []), (''events'', PList []),
          (''achievements'', PList []), (''week'', PStr ''This Week''),
          (''date'', PNone)] \<and>
   (\<exists>d. read_document sample_libs sample_fs ''data/alias.yml'' = Inr (PDict d) \<and>
        (\<exists>xs. map_of (normalize_content d) ''grade6'' = Some (PList xs)) \<and>
        (\<exists>xs. map_of (normalize_content d) ''events'' = Some (PList xs)))"
proof -
  let ?out = "[(''grade6'', PList [PStr ''quiz'']), (''grade7'', PList []),
               (''grade8'', PList []), (''announcements'', PList []), (''events'', PList []),
               (''achievements'', PList []), (''week'', PStr ''This Week''),
               (''date'', PNone)]"
  have l: "load_content sample_libs sample_fs ''data/alias.yml'' = Inr ?out"
    by code_simp
  have r: "read_document sample_libs sample_fs ''data/alias.yml'' =
             Inr (PDict [(PStr ''6th'', PList [PStr ''quiz''])])"
    by code_simp
  from six_fields_present [OF l] obtain d
    where d: "read_document sample_libs sample_fs ''data/alias.yml'' = Inr (PDict d)"
      and g: "\<forall>(alias, canon) \<in> set GradeKeys.
            (\<forall>k \<in> set [canon, alias].
               case map_of d (PStr k) of None \<Rightarrow> True | Some v \<Rightarrow> is_sequence v \<or> \<not> truthy v)
            \<longrightarrow> (\<exists>xs. map_of ?out canon = Some (PList xs))"
      and o: "\<forall>k \<in> set [''announcements'', ''events'', ''achievements''].
            (case map_of d (PStr k) of None \<Rightarrow> True | Some v \<Rightarrow> is_sequence v)
            \<longrightarrow> (\<exists>xs. map_of ?out k = Some (PList xs))"
    by blast
  from d r have dd: "d = [(PStr ''6th'', PList [PStr ''quiz''])]"
    by simp
  from l d have n: "normalize_content d = ?out"
    by (simp add: load_content_def)
  have "\<exists>xs. map_of ?out ''grade6'' = Some (PList xs)"
    using g by (simp add: GradeKeys_def dd)
  moreover have "\<exists>xs. map_of ?out ''events'' = Some (PList xs)"
    using o by (simp add: dd)
  ultimately show ?thesis
    using l d n by auto
qed

text \<open>
  The claim as stated, that each of the six fields is a sequence, fails on the document
  \<^verbatim>\<open>grade6: 5\<close>: it is accepted, and the field \<^verbatim>\<open>grade6\<close> returned is the integer 5.
\<close>

theorem six_sequences_counterexample:
  "load_content sample_libs sample_fs ''data/scalar.yml'' =
     Inr [(''grade6'', PInt 5), (''grade7'', PList []), (''grade8'', PList []),
          (''announcements'', PList []), (''events'', PList []),
          (''achievements'', PList []), (''week'', PStr ''This Week''),
          (''date'', PNone)] \<and>
   \<not> is_sequence (PInt 5)"
proof -
  have "load_content sample_libs sample_fs ''data/scalar.yml'' =
     Inr [(''grade6'', PInt 5), (''grade7'', PList []), (''grade8'', PList []),
          (''announcements'', PList []), (''events'', PList []),
          (''achievements'', PList []), (''week'', PStr ''This Week''),
          (''date'', PNone)]"
    by code_simp
  then show ?thesis by simp
qed

text \<open>
  C10 (as amended). An explicit null under \<^verbatim>\<open>announcements\<close>, \<^verbatim>\<open>events\<close> or
  \<^verbatim>\<open>achievements\<close> is returned as it is. A null or any other falsy value under a grade
  key is never returned: the grade field is then the truthy value under the other key of
  the pair when there is one, and the empty list otherwise. A null or falsy \<^verbatim>\<open>week\<close> is
  replaced by the placeholder \<^verbatim>\<open>This Week\<close>. (An absent key reads as null.)
\<close>

theorem null_kept_falsy_replaced:
  assumes "read_document L fs a = Inr (PDict d)"
  shows "\<exists>out. load_content L fs a = Inr out \<and>
     (\<forall>k \<in> set [''announcements'', ''events'', ''achievements''].
         map_of d (PStr k) = Some PNone \<longrightarrow> map_of out k = Some PNone) \<and>
     (\<forall>(alias, canon) \<in> set GradeKeys.
         (\<not> truthy (dict_get d canon PNone) \<longrightarrow>
            map_of out canon = Some (py_or (dict_get d alias PNone) (PList []))) \<and>
         (\<not> truthy (dict_get d alias PNone) \<longrightarrow>
            map_of out canon = Some (py_or (dict_get d canon PNone) (PList []))) \<and>
         (\<not> truthy (dict_get d canon PNone) \<and> \<not> truthy (dict_get d alias PNone) \<longrightarrow>
            map_of out canon = Some (PList []))) \<and>
     (\<not> truthy (dict_get d ''week'' PNone) \<longrightarrow>
         map_of out ''week'' = Some (PStr ''This Week''))"
proof -
  let ?out = "normalize_content d"
  have nulls: "map_of ?out k = Some PNone"
    if "k \<in> set [''announcements'', ''events'', ''achievements'']"
      and "map_of d (PStr k) = Some PNone" for k
    unfolding other_field [OF that(1)] by (simp add: dict_get_def that(2))
  have grades:
    "(\<not> truthy (dict_get d ck PNone) \<longrightarrow>
        map_of ?out ck = Some (py_or (dict_get d ak PNone) (PList []))) \<and>
     (\<not> truthy (dict_get d ak PNone) \<longrightarrow>
        map_of ?out ck = Some (py_or (dict_get d ck PNone) (PList []))) \<and>
     (\<not> truthy (dict_get d ck PNone) \<and> \<not> truthy (dict_get d ak PNone) \<longrightarrow>
        map_of ?out ck = Some (PList []))"
    if "(ak, ck) \<in> set GradeKeys" for ak ck
    unfolding grade_field [OF that] by (simp add: py_or_def)
  have week: "\<not> truthy (dict_get d ''week'' PNone) \<longrightarrow>
                map_of ?out ''week'' = Some (PStr ''This Week'')"
    unfolding week_field by (simp add: py_or_def)
  have "load_content L fs a = Inr ?out"
    using assms by (rule load_content_document)
  moreover have "\<forall>k \<in> set [''announcements'', ''events'', ''achievements''].
         map_of d (PStr k) = Some PNone \<longrightarrow> map_of ?out k = Some PNone"
    using nulls by blast
  moreover have "\<forall>(alias, canon) \<in> set GradeKeys.
         (\<not> truthy (dict_get d canon PNone) \<longrightarrow>
            map_of ?out canon = Some (py_or (dict_get d alias PNone) (PList []))) \<and>
         (\<not> truthy (dict_get d alias PNone) \<longrightarrow>
            map_of ?out canon = Some (py_or (dict_get d canon PNone) (PList []))) \<and>
         (\<not> truthy (dict_get d canon PNone) \<and> \<not> truthy (dict_get d alias PNone) \<longrightarrow>
            map_of ?out canon = Some (PList []))"
    using grades by blast
  ultimately show ?thesis
    using week by blast
qed

theorem null_kept_falsy_replaced_witness:
  "\<exists>out. load_content sample_libs sample_fs ''data/nulls.yml'' = Inr out \<and>
         map_of out ''announcements'' = Some PNone \<and>
         map_of out ''grade6'' = Some (PList [PStr ''quiz'']) \<and>
         map_of out ''grade7'' = Some (PList []) \<and>
         map_of out ''week'' = Some (PStr ''This Week'')"
proof -
  let ?d = "[(PStr ''grade6'', PNone), (PStr ''6th'', PList [PStr ''quiz'']),
             (PStr ''announcements'', PNone), (PStr ''week'', PInt 0)]"
  have r: "read_document sample_libs sample_fs ''data/nulls.yml'' = Inr (PDict ?d)"
    by code_simp
  from null_kept_falsy_replaced [OF r] obtain out
    where l: "load_content sample_libs sample_fs ''data/nulls.yml'' = Inr out"
      and n: "\<forall>k \<in> set [''announcements'', ''events'', ''achievements''].
                map_of ?d (PStr k) = Some PNone \<longrightarrow> map_of out k = Some PNone"
      and g: "\<forall>(alias, canon) \<in> set GradeKeys.
         (\<not> truthy (dict_get ?d canon PNone) \<longrightarrow>
            map_of out canon = Some (py_or (dict_get ?d alias PNone) (PList []))) \<and>
         (\<not> truthy (dict_get ?d alias PNone) \<longrightarrow>
            map_of out canon = Some (py_or (dict_get ?d canon PNone) (PList []))) \<and>
         (\<not> truthy (dict_get ?d canon PNone) \<and> \<not> truthy (dict_get ?d alias PNone) \<longrightarrow>
            map_of out canon = Some (PList []))"
      and w: "\<not> truthy (dict_get ?d ''week'' PNone) \<longrightarrow>
                map_of out ''week'' = Some (PStr ''This Week'')"
    by blast
  have "map_of out ''announcements'' = Some PNone"
    using n by simp
  moreover have "map_of out ''grade6'' = Some (PList [PStr ''quiz''])"
    using g by (simp add: GradeKeys_def dict_get_def py_or_def)
  moreover have "map_of out ''grade7'' = Some (PList [])"
    using g by (simp add: GradeKeys_def dict_get_def py_or_def)
  moreover have "map_of out ''week'' = Some (PStr ''This Week'')"
    using w by (simp add: dict_get_def)
  ultimately show ?thesis
    using l by blast
qed

text \<open>
  The claim as stated, that a null under a grade key is replaced by the empty list, fails
  on the document \<^verbatim>\<open>{grade6: null, 6th: [quiz], announcements: null, week: 0}\<close>: the
  field \<^verbatim>\<open>grade6\<close> returned is the alias's \<^verbatim>\<open>[quiz]\<close>, not the empty list.
\<close>

theorem falsy_grade_default_counterexample:
  "read_document sample_libs sample_fs ''data/nulls.yml'' =
     Inr (PDict [(PStr ''grade6'', PNone), (PStr ''6th'', PList [PStr ''quiz'']),
                 (PStr ''announcements'', PNone), (PStr ''week'', PInt 0)]) \<and>
   load_content sample_libs sample_fs ''data/nulls.yml'' =
     Inr [(''grade6'', PList [PStr ''quiz'']), (''grade7'', PList []), (''grade8'', PList []),
          (''announcements'', PNone), (''events'', PList []),
          (''achievements'', PList []), (''week'', PStr ''This Week''),
          (''date'', PNone)]"
  by code_simp

end
